theory Spec2Isabelle
  imports Complex_Main "HOL-Library.Word"
begin

section \<open>Data model of package chainstream\<close>

text \<open>
  Go's \<open>uint64\<close> is a 64-bit word. Go's \<open>int\<close> and \<open>int64\<close> fields are only stored and
  compared here, never computed with, and are modelled as \<open>int\<close>. \<open>float64\<close> fields are
  inert and modelled as \<open>real\<close>; \<open>time.Time\<close> is an instant in nanoseconds.
  Record fields carry a short prefix of their struct, because several structs of the
  package share field names (Slot, Index, Instructions, Owner, Result).
\<close>

type_synonym uint64 = "64 word"

text \<open>
  A value of Go's empty interface \<open>interface{}\<close>: a dynamic type together with a value
  of that type. \<open>encoding/json\<close> stores \<open>nil\<close> for JSON null (and leaves \<open>nil\<close> when the
  member is absent), \<open>bool\<close>, \<open>float64\<close> for every JSON number, \<open>string\<close>,
  \<open>[]interface{}\<close> and \<open>map[string]interface{}\<close>. \<open>AInt\<close> is the dynamic type \<open>int\<close>,
  which is what an untyped integer constant converts to when it is compared with an
  interface value.
\<close>

datatype any =
    ANil
  | ABool bool
  | AFloat64 real
  | AString string
  | AInt int
  | ASlice "any list"
  | AMap "(string \<times> any) list"

text \<open>
  \<open>v == c\<close> for an interface value \<open>v\<close> and an untyped integer constant \<open>c\<close>: the constant
  takes its default type \<open>int\<close>, and the operands are equal iff the dynamic type of \<open>v\<close>
  is \<open>int\<close> and the values agree.
\<close>

definition any_eq_const :: "any \<Rightarrow> int \<Rightarrow> bool" where
  "any_eq_const v c = (v = AInt c)"

text \<open>JSON values as they arrive on the wire, and what \<open>encoding/json\<close> stores for them
  in a field of type \<open>interface{}\<close> (\<open>None\<close>: the member is absent).\<close>

datatype json =
    JNull
  | JBool bool
  | JNumber real
  | JString string
  | JArray "json list"
  | JObject "(string \<times> json) list"

fun unmarshal_any :: "json \<Rightarrow> any" where
  "unmarshal_any JNull = ANil"
| "unmarshal_any (JBool b) = ABool b"
| "unmarshal_any (JNumber x) = AFloat64 x"
| "unmarshal_any (JString s) = AString s"
| "unmarshal_any (JArray xs) = ASlice (map unmarshal_any xs)"
| "unmarshal_any (JObject kvs) = AMap (map (\<lambda>(k, v). (k, unmarshal_any v)) kvs)"

definition unmarshal_member :: "json option \<Rightarrow> any" where
  "unmarshal_member m = (case m of None \<Rightarrow> ANil | Some j \<Rightarrow> unmarshal_any j)"

subsection \<open>types.go\<close>

record RPCError =
  re_Code :: int
  re_Message :: string

record JSONRPCRequest =
  rq_JSONRPC :: string
  rq_ID :: int
  rq_Method :: string
  rq_Params :: any

record JSONRPCResponse =
  rs_JSONRPC :: string
  rs_ID :: int
  rs_Result :: any
  rs_Error :: "RPCError option"

text \<open>The acknowledgement struct of the revision of types.go that types the subscription
  identifier.\<close>

record SubscribeResponse =
  sr_JSONRPC :: string
  sr_ID :: int
  sr_Result :: int

text \<open>The request struct of that revision; its anonymous structs are named by their
  field.\<close>

record RequestAccountKeys =
  ak_All :: "string list"
  ak_OneOf :: "string list"
  ak_Exclude :: "string list"

record RequestFilter =
  rf_ExcludeVotes :: bool
  rf_Commitment :: string
  rf_AccountKeys :: RequestAccountKeys

record RequestParams =
  rp_Network :: string
  rp_Verified :: bool
  rp_Filter :: RequestFilter

record TransactionNotificationRequest =
  tr_JSONRPC :: string
  tr_ID :: int
  tr_Method :: string
  tr_Params :: RequestParams

record ContextMetadata =
  cm_Slot :: uint64
  cm_SlotStatus :: string
  cm_NodeTime :: int
  cm_IsVote :: bool
  cm_Signature :: string
  cm_Index :: int

record Config =
  WssApiEndpoint :: string

subsection \<open>transactions\_notifications.go\<close>

record MessageHeader =
  mh_NumReadonlySigned :: int
  mh_NumReadonlyUnsigned :: int
  mh_NumSignatures :: int

record AddressTableLookup =
  al_AccountKey :: string
  al_WritableIndexes :: "int list"
  al_ReadonlyIndexes :: "int list"

record CompiledInstruction =
  ci_ProgramIDIndex :: int
  ci_Accounts :: "int list"
  ci_Data :: string

record TransactionMessage =
  tm_AccountKeys :: "string list"
  tm_AddressTableLookups :: "AddressTableLookup list"
  tm_Header :: MessageHeader
  tm_Instructions :: "CompiledInstruction list"
  tm_RecentBlockhash :: string

record EncodedTransaction =
  et_Message :: TransactionMessage
  et_MessageHash :: string
  et_Signatures :: "string list"

record InnerInstruction =
  ii_Index :: int
  ii_Instructions :: "CompiledInstruction list"

record LoadedAddresses =
  la_Writable :: "string list"
  la_Readonly :: "string list"

record TokenAmountUI =
  ta_Amount :: string
  ta_Decimals :: int
  ta_UIAmount :: real
  ta_UIAmountString :: string

record TokenBalance =
  tb_AccountIndex :: int
  tb_Mint :: string
  tb_Owner :: string
  tb_ProgramID :: string
  tb_UIAmount :: TokenAmountUI

record TransactionMeta =
  me_Err :: string
  me_Fee :: uint64
  me_InnerInstructions :: "InnerInstruction list"
  me_LoadedAddresses :: LoadedAddresses
  me_LogMessages :: "string list"
  me_PostBalances :: "uint64 list"
  me_PostTokenBalances :: "TokenBalance list"
  me_PreBalances :: "uint64 list"
  me_PreTokenBalances :: "TokenBalance list"
  me_Rewards :: "any list"

record TransactionValue =
  tv_BlockTime :: "int option"
  tv_Slot :: uint64
  tv_Transaction :: EncodedTransaction
  tv_Meta :: TransactionMeta

record TransactionNotificationData =
  td_Context :: ContextMetadata
  td_Value :: TransactionValue

record TransactionNotificationParams =
  tp_Subscription :: int
  tp_Result :: TransactionNotificationData

record TransactionNotification =
  tn_JSONRPC :: string
  tn_Method :: string
  tn_Params :: TransactionNotificationParams

subsection \<open>Accessors\<close>

text \<open>A run-time panic of Go, here the index out of range of \<open>xs[i]\<close>.\<close>

datatype panic = IndexOutOfRange

definition index :: "'a list \<Rightarrow> nat \<Rightarrow> panic + 'a" where
  "index xs i = (if i < length xs then Inr (xs ! i) else Inl IndexOutOfRange)"

definition Slot :: "TransactionNotification \<Rightarrow> uint64" where
  "Slot t = tv_Slot (td_Value (tp_Result (tn_Params t)))"

definition Signature :: "TransactionNotification \<Rightarrow> string" where
  "Signature t = cm_Signature (td_Context (tp_Result (tn_Params t)))"

definition Owner :: "TransactionNotification \<Rightarrow> panic + string" where
  "Owner t =
     (if length (tm_AccountKeys (et_Message (tv_Transaction (td_Value (tp_Result (tn_Params t)))))) = 0
      then Inr ''''
      else index (tm_AccountKeys (et_Message (tv_Transaction (td_Value (tp_Result (tn_Params t)))))) 0)"

section \<open>The subscription session\<close>

text \<open>
  \<open>TransactionsNotifications\<close> talks to the websocket library, the context and the
  clock. Its behaviour is modelled against a script of what that environment answers,
  and it produces the ordered list of what it does to the environment (its effects)
  together with its outcome.

  A transport error is either one for which \<open>errors.Is(err, context.Canceled)\<close> holds,
  or any other error.
\<close>

datatype neterr = ContextCanceled | OtherErr

text \<open>
  One iteration of the \<open>for { select { ... } }\<close> loop asks the environment which case runs:
  \<^item> \<open>TickerC r\<close>: \<open>ticker.C\<close> is ready; \<open>r\<close> is what \<open>wsConn.Ping\<close> then returns;
  \<^item> \<open>CtxDone\<close>: \<open>ctx.Done()\<close> is ready;
  \<^item> \<open>ReadOk n\<close>: the default case runs and \<open>wsjson.Read\<close> decodes the frame into \<open>n\<close>;
  \<^item> \<open>ReadErr e c\<close>: the default case runs and \<open>wsjson.Read\<close> fails with \<open>e\<close> (a read or a
    decode failure); \<open>c\<close> is \<open>ctx.Err() != nil\<close> at that moment.
\<close>

datatype 'n select_event =
    TickerC "neterr option"
  | CtxDone
  | ReadOk 'n
  | ReadErr neterr bool

text \<open>
  What one \<open>websocket.Dial\<close> and the connection it opens answer: the result of the dial,
  of writing the subscribe request, of reading the acknowledgement (decoded into \<open>'a\<close>),
  and the events of the streaming loop. The fields after a failing step are not consulted.
\<close>

record ('a, 'n) connection =
  dial :: "neterr option"
  write_request :: "neterr option"
  read_response :: "neterr + 'a"
  events :: "'n select_event list"

text \<open>
  Effects, in the order they happen. Connections are numbered by the dial that opened
  them, from 0. Durations are in seconds.
\<close>

datatype ('r, 'n) effect =
    Dial string
  | WriteJSON nat 'r
  | NewTicker nat nat
  | Ping nat
  | Do 'n
  | Sleep nat
  | TickerStop nat
  | Close nat

text \<open>The errors built by \<open>fmt.Errorf\<close>, with the error they wrap.\<close>

datatype error =
    CannotConnect neterr
  | CannotSendSubscribe neterr
  | CannotReadSubscribeResponse neterr
  | SubscribeResultIsNil

text \<open>
  \<open>Returned None\<close> is \<open>return nil\<close>, \<open>Returned (Some e)\<close> the return of an error, and
  \<open>Running\<close> a call that has not returned when the script ends (it is blocked in the
  environment).
\<close>

datatype outcome = Returned "error option" | Running

datatype loop_exit = ReturnNil | GotoReconnect | Blocked

text \<open>The loop \<open>for { select { ... } }\<close> on connection \<open>k\<close>.\<close>

fun for_select :: "nat \<Rightarrow> 'n select_event list \<Rightarrow> loop_exit \<times> ('r, 'n) effect list" where
  "for_select k [] = (Blocked, [])"
| "for_select k (TickerC r # es) =
     (case for_select k es of (x, tr) \<Rightarrow> (x, Ping k # tr))"
| "for_select k (CtxDone # es) = (ReturnNil, [])"
| "for_select k (ReadOk n # es) =
     (case for_select k es of (x, tr) \<Rightarrow> (x, Do n # tr))"
| "for_select k (ReadErr e c # es) =
     (if e = ContextCanceled \<or> c then (ReturnNil, [])
      else (GotoReconnect, [Sleep 1]))"

text \<open>
  The function body from the label \<open>RECONNECT\<close>. \<open>k\<close> is the number of the connection
  about to be dialled and \<open>defers\<close> the calls deferred so far, the last one first: they
  run when the function returns, not at \<open>goto RECONNECT\<close>. \<open>result_is_zero\<close> is the test
  \<open>subResp.Result == 0\<close>, which depends on the type of \<open>subResp\<close> (see below).
\<close>

fun RECONNECT ::
  "('a \<Rightarrow> bool) \<Rightarrow> Config \<Rightarrow> 'r \<Rightarrow> nat \<Rightarrow> ('r, 'n) effect list \<Rightarrow>
   ('a, 'n) connection list \<Rightarrow> outcome \<times> ('r, 'n) effect list" where
  "RECONNECT result_is_zero config request k defers [] =
     (Running, [Dial (WssApiEndpoint config)])"
| "RECONNECT result_is_zero config request k defers (c # cs) =
     (case dial c of
        Some err \<Rightarrow>
          (Returned (Some (CannotConnect err)), Dial (WssApiEndpoint config) # defers)
      | None \<Rightarrow>
         (case write_request c of
            Some err \<Rightarrow>
              (Returned (Some (CannotSendSubscribe err)),
               [Dial (WssApiEndpoint config), WriteJSON k request] @ Close k # defers)
          | None \<Rightarrow>
             (case read_response c of
                Inl err \<Rightarrow>
                  (Returned (Some (CannotReadSubscribeResponse err)),
                   [Dial (WssApiEndpoint config), WriteJSON k request] @ Close k # defers)
              | Inr subResp \<Rightarrow>
                  if result_is_zero subResp
                  then (Returned (Some SubscribeResultIsNil),
                        [Dial (WssApiEndpoint config), WriteJSON k request] @ Close k # defers)
                  else
                    (case for_select k (events c) of
                       (ReturnNil, tr) \<Rightarrow>
                         (Returned None,
                          [Dial (WssApiEndpoint config), WriteJSON k request, NewTicker k 30]
                          @ tr @ TickerStop k # Close k # defers)
                     | (GotoReconnect, tr) \<Rightarrow>
                         (case RECONNECT result_is_zero config request (Suc k)
                                 (TickerStop k # Close k # defers) cs of
                            (out, tr') \<Rightarrow>
                              (out,
                               [Dial (WssApiEndpoint config), WriteJSON k request, NewTicker k 30]
                               @ tr @ tr'))
                     | (Blocked, tr) \<Rightarrow>
                         (Running,
                          [Dial (WssApiEndpoint config), WriteJSON k request, NewTicker k 30]
                          @ tr)))))"

definition TransactionsNotifications ::
  "('a \<Rightarrow> bool) \<Rightarrow> Config \<Rightarrow> 'r \<Rightarrow> ('a, 'n) connection list \<Rightarrow>
   outcome \<times> ('r, 'n) effect list" where
  "TransactionsNotifications result_is_zero config request world =
     RECONNECT result_is_zero config request 0 [] world"

text \<open>
  The two revisions of \<open>TransactionsNotifications\<close> in the repository differ in the type
  of \<open>subResp\<close> only. One declares \<open>var subResp JSONRPCResponse\<close>, whose
  \<open>Result\<close> is an \<open>interface{}\<close>; the other declares \<open>var subResp SubscribeResponse\<close>,
  whose \<open>Result\<close> is an \<open>int\<close>.
\<close>

definition JSONRPCResponse_result_is_zero :: "JSONRPCResponse \<Rightarrow> bool" where
  "JSONRPCResponse_result_is_zero subResp = any_eq_const (rs_Result subResp) 0"

definition SubscribeResponse_result_is_zero :: "SubscribeResponse \<Rightarrow> bool" where
  "SubscribeResponse_result_is_zero subResp = (sr_Result subResp = 0)"

subsection \<open>Observations on a run\<close>

text \<open>The arguments of the callback, in call order; the number of dials.\<close>

fun callbacks :: "('r, 'n) effect list \<Rightarrow> 'n list" where
  "callbacks [] = []"
| "callbacks (Do n # tr) = n # callbacks tr"
| "callbacks (x # tr) = callbacks tr"

fun dials :: "('r, 'n) effect list \<Rightarrow> nat" where
  "dials [] = 0"
| "dials (Dial ep # tr) = Suc (dials tr)"
| "dials (x # tr) = dials tr"

fun sleeps :: "('r, 'n) effect list \<Rightarrow> nat list" where
  "sleeps [] = []"
| "sleeps (Sleep d # tr) = d # sleeps tr"
| "sleeps (x # tr) = sleeps tr"

text \<open>The frames of a list of events, and the events that keep the loop going.\<close>

fun frames :: "'n select_event list \<Rightarrow> 'n list" where
  "frames [] = []"
| "frames (ReadOk n # es) = n # frames es"
| "frames (x # es) = frames es"

fun healthy :: "'n select_event \<Rightarrow> bool" where
  "healthy (TickerC r) = True"
| "healthy (ReadOk n) = True"
| "healthy CtxDone = False"
| "healthy (ReadErr e c) = False"

text \<open>The events on which the loop observes the cancellation.\<close>

fun cancellation :: "'n select_event \<Rightarrow> bool" where
  "cancellation CtxDone = True"
| "cancellation (ReadErr e c) = (e = ContextCanceled \<or> c)"
| "cancellation x = False"

text \<open>A read or decode failure with the context not cancelled.\<close>

fun transient :: "'n select_event \<Rightarrow> bool" where
  "transient (ReadErr e c) = (e \<noteq> ContextCanceled \<and> \<not> c)"
| "transient x = False"

text \<open>The connection is dialled and subscribed successfully.\<close>

definition subscribed :: "('a \<Rightarrow> bool) \<Rightarrow> ('a, 'n) connection \<Rightarrow> bool" where
  "subscribed result_is_zero c =
     (dial c = None \<and> write_request c = None \<and>
      (case read_response c of Inl err \<Rightarrow> False | Inr subResp \<Rightarrow> \<not> result_is_zero subResp))"

text \<open>
  The first event that ends the loop on a connection (\<open>None\<close>: the script ends with the
  loop still running), and the frames handed to the callback before it.
\<close>

definition first_exit :: "'n select_event list \<Rightarrow> 'n select_event option" where
  "first_exit es = (case dropWhile healthy es of [] \<Rightarrow> None | e # post \<Rightarrow> Some e)"

definition delivered :: "'n select_event list \<Rightarrow> 'n list" where
  "delivered es = frames (takeWhile healthy es)"

text \<open>A connection that is subscribed and then lost to a transient failure.\<close>

definition reconnecting :: "('a \<Rightarrow> bool) \<Rightarrow> ('a, 'n) connection \<Rightarrow> bool" where
  "reconnecting result_is_zero c =
     (subscribed result_is_zero c \<and>
      (case first_exit (events c) of None \<Rightarrow> False | Some e \<Rightarrow> transient e))"

text \<open>The deferred calls after \<open>n\<close> more connections, numbered from \<open>k\<close>, have reached
  their streaming loop.\<close>

fun deferred :: "nat \<Rightarrow> nat \<Rightarrow> ('r, 'n) effect list \<Rightarrow> ('r, 'n) effect list" where
  "deferred k 0 d = d"
| "deferred k (Suc n) d = deferred (Suc k) n (TickerStop k # Close k # d)"

subsection \<open>Zero values\<close>

text \<open>The value \<open>encoding/json\<close> leaves in a \<open>TransactionNotification\<close> for the frame \<open>{}\<close>.\<close>

definition zero_ContextMetadata :: ContextMetadata where
  "zero_ContextMetadata =
     \<lparr>cm_Slot = 0, cm_SlotStatus = '''', cm_NodeTime = 0, cm_IsVote = False,
      cm_Signature = '''', cm_Index = 0\<rparr>"

definition zero_TransactionMessage :: TransactionMessage where
  "zero_TransactionMessage =
     \<lparr>tm_AccountKeys = [], tm_AddressTableLookups = [],
      tm_Header = \<lparr>mh_NumReadonlySigned = 0, mh_NumReadonlyUnsigned = 0, mh_NumSignatures = 0\<rparr>,
      tm_Instructions = [], tm_RecentBlockhash = ''''\<rparr>"

definition zero_TransactionMeta :: TransactionMeta where
  "zero_TransactionMeta =
     \<lparr>me_Err = '''', me_Fee = 0, me_InnerInstructions = [],
      me_LoadedAddresses = \<lparr>la_Writable = [], la_Readonly = []\<rparr>,
      me_LogMessages = [], me_PostBalances = [], me_PostTokenBalances = [],
      me_PreBalances = [], me_PreTokenBalances = [], me_Rewards = []\<rparr>"

text \<open>A notification with the given envelope, account keys and instructions, zero
  elsewhere; \<open>notification [] [] 0 [] []\<close> is the zero value.\<close>

definition notification ::
  "string \<Rightarrow> string \<Rightarrow> int \<Rightarrow> string list \<Rightarrow> CompiledInstruction list \<Rightarrow>
   TransactionNotification" where
  "notification jsonrpc method subscription keys instructions =
     \<lparr>tn_JSONRPC = jsonrpc, tn_Method = method,
      tn_Params =
        \<lparr>tp_Subscription = subscription,
         tp_Result =
           \<lparr>td_Context = zero_ContextMetadata,
            td_Value =
              \<lparr>tv_BlockTime = None, tv_Slot = 0,
               tv_Transaction =
                 \<lparr>et_Message =
                    \<lparr>tm_AccountKeys = keys, tm_AddressTableLookups = [],
                     tm_Header = tm_Header zero_TransactionMessage,
                     tm_Instructions = instructions, tm_RecentBlockhash = ''''\<rparr>,
                  et_MessageHash = '''', et_Signatures = []\<rparr>,
               tv_Meta = zero_TransactionMeta\<rparr>\<rparr>\<rparr>\<rparr>"

subsection \<open>The instruction classifier\<close>

text \<open>
  Modelled from the spec: the method \<open>InstructionType\<close> of \<open>TransactionNotification\<close>,
  which the tests call and whose source file the repository snapshot lacks. The spec says:
  given a known instruction discriminator byte sequence in the first top-level
  instruction's data, the accessor returns the matching label (a fixed discriminator maps
  to "Buy", another to "Sell", another to "Create"); an unrecognized discriminator returns
  an "unknown" label rather than failing. How the discriminator is read from the
  instruction's data, and the three discriminators, are not given: they are parameters.
  A message without instructions has no discriminator and is classified as unknown.
\<close>

type_synonym byte = "8 word"

definition InstructionType ::
  "(string \<Rightarrow> byte list) \<Rightarrow> byte list \<Rightarrow> byte list \<Rightarrow> byte list \<Rightarrow>
   TransactionNotification \<Rightarrow> string" where
  "InstructionType discriminator buy sell create t =
     (case tm_Instructions (et_Message (tv_Transaction (td_Value (tp_Result (tn_Params t))))) of
        [] \<Rightarrow> ''unknown''
      | i # rest \<Rightarrow>
          if discriminator (ci_Data i) = buy then ''Buy''
          else if discriminator (ci_Data i) = sell then ''Sell''
          else if discriminator (ci_Data i) = create then ''Create''
          else ''unknown'')"

subsection \<open>Sample values\<close>

text \<open>An endpoint; for each revision a subscribe request and the acknowledgement with a
  given result; and a connection on which dial, write and read succeed with the given
  acknowledgement, and which then plays the given events.\<close>

definition sample_config :: Config where
  "sample_config = \<lparr>WssApiEndpoint = ''wss://chainstream.api.syndica.io''\<rparr>"

definition sample_jsonrpc_request :: JSONRPCRequest where
  "sample_jsonrpc_request =
     \<lparr>rq_JSONRPC = ''2.0'', rq_ID = 1, rq_Method = ''chainstream.transactionsSubscribe'',
      rq_Params = AMap [(''network'', AString ''solana-mainnet''), (''verified'', ABool False)]\<rparr>"

definition sample_notification_request :: TransactionNotificationRequest where
  "sample_notification_request =
     \<lparr>tr_JSONRPC = ''2.0'', tr_ID = 1, tr_Method = ''chainstream.transactionsSubscribe'',
      tr_Params =
        \<lparr>rp_Network = ''solana-mainnet'', rp_Verified = False,
         rp_Filter =
           \<lparr>rf_ExcludeVotes = True, rf_Commitment = ''confirmed'',
            rf_AccountKeys = \<lparr>ak_All = [], ak_OneOf = [], ak_Exclude = []\<rparr>\<rparr>\<rparr>\<rparr>"

definition jsonrpc_response :: "json option \<Rightarrow> JSONRPCResponse" where
  "jsonrpc_response result =
     \<lparr>rs_JSONRPC = ''2.0'', rs_ID = 1, rs_Result = unmarshal_member result, rs_Error = None\<rparr>"

definition subscribe_response :: "int \<Rightarrow> SubscribeResponse" where
  "subscribe_response result = \<lparr>sr_JSONRPC = ''2.0'', sr_ID = 1, sr_Result = result\<rparr>"

definition accepting :: "'a \<Rightarrow> 'n select_event list \<Rightarrow> ('a, 'n) connection" where
  "accepting subResp es =
     \<lparr>dial = None, write_request = None, read_response = Inr subResp, events = es\<rparr>"

text \<open>For the classifier: the first eight bytes of the data as the discriminator, three
  discriminators, and an instruction with the given data.\<close>

definition leading_bytes :: "string \<Rightarrow> byte list" where
  "leading_bytes data = map (\<lambda>c. of_nat (of_char c)) (take 8 data)"

definition sample_buy :: "byte list" where
  "sample_buy = [102, 6, 61, 18, 1, 218, 235, 234]"

definition sample_sell :: "byte list" where
  "sample_sell = [51, 230, 133, 164, 1, 127, 131, 173]"

definition sample_create :: "byte list" where
  "sample_create = [24, 30, 200, 40, 5, 28, 7, 119]"

definition instruction :: "string \<Rightarrow> CompiledInstruction" where
  "instruction data = \<lparr>ci_ProgramIDIndex = 0, ci_Accounts = [], ci_Data = data\<rparr>"

section \<open>Properties of the streaming loop and of reconnection\<close>

lemma for_select_healthy_append:
  "\<forall>x\<in>set pre. healthy x \<Longrightarrow>
   for_select k (pre @ rest) =
     (case for_select k rest of (x, tr) \<Rightarrow> (x, snd (for_select k pre) @ tr))"
proof (induction pre)
  case Nil
  show ?case by simp
next
  case (Cons x pre)
  then show ?case by (cases x) (simp_all add: case_prod_beta)
qed

lemma callbacks_append: "callbacks (xs @ ys) = callbacks xs @ callbacks ys"
  by (induction xs rule: callbacks.induct) simp_all

lemma dials_append: "dials (xs @ ys) = dials xs + dials ys"
  by (induction xs rule: dials.induct) simp_all

lemma sleeps_append: "sleeps (xs @ ys) = sleeps xs @ sleeps ys"
  by (induction xs rule: sleeps.induct) simp_all

lemma frames_append: "frames (xs @ ys) = frames xs @ frames ys"
  by (induction xs rule: frames.induct) simp_all

lemma for_select_healthy:
  assumes "\<forall>x\<in>set es. healthy x"
  shows "callbacks (snd (for_select k es)) = frames es"
    and "dials (snd (for_select k es)) = 0"
    and "sleeps (snd (for_select k es)) = []"
  using assms
proof (induction es)
  case Nil
  {
    case 1 show ?case by simp
  next
    case 2 show ?case by simp
  next
    case 3 show ?case by simp
  }
next
  case (Cons x es)
  {
    case 1 with Cons.IH(1) show ?case by (cases x) (simp_all add: case_prod_beta)
  next
    case 2 with Cons.IH(2) show ?case by (cases x) (simp_all add: case_prod_beta)
  next
    case 3 with Cons.IH(3) show ?case by (cases x) (simp_all add: case_prod_beta)
  }
qed

lemma takeWhile_healthy: "\<forall>x\<in>set (takeWhile healthy es). healthy x"
  by (auto dest: set_takeWhileD)

lemma first_exit_None_iff: "first_exit es = None \<longleftrightarrow> (\<forall>x\<in>set es. healthy x)"
proof (cases "dropWhile healthy es")
  case Nil
  have "first_exit es = None" unfolding first_exit_def Nil by simp
  moreover have "\<forall>x\<in>set es. healthy x" using Nil by simp
  ultimately show ?thesis by simp
next
  case (Cons e post)
  then have "dropWhile healthy es \<noteq> []" by simp
  then have "\<not> (\<forall>x\<in>set es. healthy x)" by simp
  moreover have "first_exit es = Some e" unfolding first_exit_def Cons by simp
  ultimately show ?thesis by simp
qed

lemma first_exit_takeWhile:
  assumes "first_exit es = Some e"
  shows "\<exists>post. es = takeWhile healthy es @ e # post \<and> \<not> healthy e"
proof -
  from assms obtain post where d: "dropWhile healthy es = e # post"
    by (auto simp: first_exit_def split: list.splits)
  have "es = takeWhile healthy es @ e # post" using d
    by (metis takeWhile_dropWhile_id)
  moreover have "\<not> healthy e" using d by (metis hd_dropWhile list.sel(1) list.distinct(1))
  ultimately show ?thesis by blast
qed

lemma first_exit_not_healthy: "first_exit es = Some e \<Longrightarrow> \<not> healthy e"
  using first_exit_takeWhile by blast

lemma first_exit_append:
  "\<forall>x\<in>set pre. healthy x \<Longrightarrow> \<not> healthy e \<Longrightarrow> first_exit (pre @ e # post) = Some e"
  by (simp add: first_exit_def dropWhile_append3)

lemma exit_kinds: "\<not> healthy e \<Longrightarrow> \<not> cancellation e \<Longrightarrow> transient e"
  by (cases e) auto

lemma cancellation_not_healthy: "cancellation e \<Longrightarrow> \<not> healthy e"
  by (cases e) simp_all

lemma for_select_exit:
  assumes "\<forall>x\<in>set pre. healthy x" and "\<not> healthy e"
  shows "for_select k (pre @ e # post) =
     (if cancellation e then (ReturnNil, snd (for_select k pre))
      else (GotoReconnect, snd (for_select k pre) @ [Sleep 1]))"
  using assms(2) by (cases e) (simp_all add: for_select_healthy_append [OF assms(1)])

lemma deferred_observations:
  "callbacks (deferred k n d) = callbacks d"
  "dials (deferred k n d) = dials d"
  "sleeps (deferred k n d) = sleeps d"
  by (induction k n d rule: deferred.induct) simp_all

lemma for_select_takeWhile_observations:
  "callbacks (snd (for_select k (takeWhile healthy es))) = delivered es"
  "dials (snd (for_select k (takeWhile healthy es))) = 0"
  "sleeps (snd (for_select k (takeWhile healthy es))) = []"
  by (simp_all add: for_select_healthy [OF takeWhile_healthy] delivered_def)

lemma delivered_healthy_append:
  "\<forall>x\<in>set pre. healthy x \<Longrightarrow> delivered (pre @ es) = frames pre @ delivered es"
  by (simp add: delivered_def takeWhile_append2 frames_append)

lemma delivered_ReadOk: "delivered (ReadOk n # es) = n # delivered es"
  by (simp add: delivered_def)

lemma delivered_exit: "\<not> healthy e \<Longrightarrow> delivered (e # post) = []"
  by (simp add: delivered_def)

lemma RECONNECT_not_subscribed:
  assumes "\<not> subscribed rz c"
  shows "\<exists>e tr. RECONNECT rz cfg req k d (c # w) = (Returned (Some e), tr @ d) \<and>
           callbacks tr = [] \<and> dials tr = 1 \<and> sleeps tr = []"
  using assms by (auto simp: subscribed_def split: option.splits sum.splits)

lemma RECONNECT_not_subscribed_outcome:
  assumes "\<not> subscribed rz c"
  shows "fst (RECONNECT rz cfg req k d (c # w)) = fst (RECONNECT rz cfg req k' d' (c # w'))"
  using assms by (auto simp: subscribed_def split: option.splits sum.splits)

lemma RECONNECT_reconnecting:
  assumes "reconnecting rz c"
  shows "RECONNECT rz cfg req k d (c # w) =
     (case RECONNECT rz cfg req (Suc k) (TickerStop k # Close k # d) w of
        (out, tr') \<Rightarrow>
          (out, [Dial (WssApiEndpoint cfg), WriteJSON k req, NewTicker k 30]
                @ snd (for_select k (takeWhile healthy (events c))) @ Sleep 1 # tr'))"
proof -
  from assms obtain e where fe: "first_exit (events c) = Some e" and t: "transient e"
    by (auto simp: reconnecting_def split: option.splits)
  from first_exit_takeWhile [OF fe] obtain post
    where ev: "events c = takeWhile healthy (events c) @ e # post" and nh: "\<not> healthy e"
    by blast
  from t have nc: "\<not> cancellation e" by (cases e) auto
  have "for_select k (takeWhile healthy (events c) @ e # post) =
      (GotoReconnect, snd (for_select k (takeWhile healthy (events c))) @ [Sleep 1])"
    using for_select_exit [OF takeWhile_healthy nh] nc by simp
  with ev have fs: "for_select k (events c) =
      (GotoReconnect, snd (for_select k (takeWhile healthy (events c))) @ [Sleep 1])"
    by simp
  from assms have s: "dial c = None" "write_request c = None"
    "\<exists>a. read_response c = Inr a \<and> \<not> rz a"
    by (auto simp: reconnecting_def subscribed_def split: sum.splits)
  then obtain a where a: "read_response c = Inr a" "\<not> rz a" by blast
  show ?thesis by (simp add: s a fs case_prod_beta)
qed

lemma RECONNECT_reconnecting_observations:
  assumes "reconnecting rz c"
  shows "fst (RECONNECT rz cfg req k d (c # w)) =
           fst (RECONNECT rz cfg req (Suc k) (TickerStop k # Close k # d) w)"
    and "callbacks (snd (RECONNECT rz cfg req k d (c # w))) =
           delivered (events c) @
           callbacks (snd (RECONNECT rz cfg req (Suc k) (TickerStop k # Close k # d) w))"
    and "dials (snd (RECONNECT rz cfg req k d (c # w))) =
           Suc (dials (snd (RECONNECT rz cfg req (Suc k) (TickerStop k # Close k # d) w)))"
    and "sleeps (snd (RECONNECT rz cfg req k d (c # w))) =
           1 # sleeps (snd (RECONNECT rz cfg req (Suc k) (TickerStop k # Close k # d) w))"
  by (simp_all add: RECONNECT_reconnecting [OF assms] case_prod_beta callbacks_append
        dials_append sleeps_append for_select_takeWhile_observations del: RECONNECT.simps)

lemma RECONNECT_reconnects:
  assumes "\<forall>x\<in>set cs. reconnecting rz x"
  shows "fst (RECONNECT rz cfg req k d (cs @ w)) =
           fst (RECONNECT rz cfg req (k + length cs) (deferred k (length cs) d) w) \<and>
         callbacks (snd (RECONNECT rz cfg req k d (cs @ w))) =
           concat (map (\<lambda>x. delivered (events x)) cs) @
           callbacks (snd (RECONNECT rz cfg req (k + length cs) (deferred k (length cs) d) w)) \<and>
         dials (snd (RECONNECT rz cfg req k d (cs @ w))) =
           length cs + dials (snd (RECONNECT rz cfg req (k + length cs) (deferred k (length cs) d) w)) \<and>
         sleeps (snd (RECONNECT rz cfg req k d (cs @ w))) =
           replicate (length cs) 1 @
           sleeps (snd (RECONNECT rz cfg req (k + length cs) (deferred k (length cs) d) w))"
  using assms
proof (induction cs arbitrary: k d)
  case Nil
  show ?case by simp
next
  case (Cons c cs)
  from Cons.prems have c: "reconnecting rz c" and cs: "\<forall>x\<in>set cs. reconnecting rz x"
    by simp_all
  show ?case
    using Cons.IH [OF cs, of "Suc k" "TickerStop k # Close k # d"]
    by (simp add: RECONNECT_reconnecting_observations [OF c] del: RECONNECT.simps)
qed

lemma RECONNECT_cancelled:
  assumes "subscribed rz c" and "first_exit (events c) = Some e" and "cancellation e"
  shows "RECONNECT rz cfg req k d (c # w) =
     (Returned None,
      [Dial (WssApiEndpoint cfg), WriteJSON k req, NewTicker k 30]
      @ snd (for_select k (takeWhile healthy (events c))) @ TickerStop k # Close k # d)"
proof -
  from first_exit_takeWhile [OF assms(2)] obtain post
    where ev: "events c = takeWhile healthy (events c) @ e # post" and nh: "\<not> healthy e"
    by blast
  have "for_select k (takeWhile healthy (events c) @ e # post) =
      (ReturnNil, snd (for_select k (takeWhile healthy (events c))))"
    using for_select_exit [OF takeWhile_healthy nh] assms(3) by simp
  with ev have fs: "for_select k (events c) =
      (ReturnNil, snd (for_select k (takeWhile healthy (events c))))"
    by simp
  from assms(1) have s: "dial c = None" "write_request c = None"
    "\<exists>a. read_response c = Inr a \<and> \<not> rz a"
    by (auto simp: subscribed_def split: sum.splits)
  then obtain a where a: "read_response c = Inr a" "\<not> rz a" by blast
  show ?thesis by (simp add: s a fs)
qed

lemma RECONNECT_blocked:
  fixes d :: "('r, 'n) effect list"
  assumes "subscribed rz c" and "first_exit (events c) = None"
  shows "RECONNECT rz cfg req k d (c # w) =
     (Running,
      [Dial (WssApiEndpoint cfg), WriteJSON k req, NewTicker k 30]
      @ snd (for_select k (events c)))"
proof -
  from assms(2) have h: "\<forall>x\<in>set (events c). healthy x"
    by (auto simp: first_exit_def split: list.splits)
  have "for_select k (events c @ []) =
      (Blocked, snd (for_select k (events c)) :: ('r, 'n) effect list)"
    using for_select_healthy_append [OF h, of k "[]"] by simp
  then have fs: "for_select k (events c) =
      (Blocked, snd (for_select k (events c)) :: ('r, 'n) effect list)" by simp
  from assms(1) have s: "dial c = None" "write_request c = None"
    "\<exists>a. read_response c = Inr a \<and> \<not> rz a"
    by (auto simp: subscribed_def split: sum.splits)
  then obtain a where a: "read_response c = Inr a" "\<not> rz a" by blast
  have "(case for_select k (events c) of
           (ReturnNil, tr) \<Rightarrow> X tr | (GotoReconnect, tr) \<Rightarrow> Y tr | (Blocked, tr) \<Rightarrow> Z tr) =
        Z (snd (for_select k (events c)) :: ('r, 'n) effect list)" for X Y Z :: "('r, 'n) effect list \<Rightarrow> outcome \<times> ('r, 'n) effect list"
    by (subst fs) simp
  then show ?thesis by (simp add: s a)
qed

lemma RECONNECT_subscribed_callbacks:
  fixes d :: "('r, 'n) effect list"
  assumes "subscribed rz c"
  shows "\<exists>rest. callbacks (snd (RECONNECT rz cfg req k d (c # w))) = delivered (events c) @ rest"
proof (cases "first_exit (events c)")
  case None
  then have h: "\<forall>x\<in>set (events c). healthy x" by (simp add: first_exit_None_iff)
  then have "takeWhile healthy (events c) = events c"
    by (simp add: takeWhile_eq_all_conv)
  then have "delivered (events c) = frames (events c)"
    by (simp only: delivered_def)
  with RECONNECT_blocked [OF assms None, of cfg req k d w] show ?thesis
    by (simp add: for_select_healthy [OF h] del: RECONNECT.simps)
next
  case (Some e)
  show ?thesis
  proof (cases "cancellation e")
    case True
    from RECONNECT_cancelled [OF assms Some True, of cfg req k d w] show ?thesis
      by (simp add: callbacks_append for_select_takeWhile_observations del: RECONNECT.simps)
  next
    case False
    with Some assms have r: "reconnecting rz c"
      by (simp add: reconnecting_def exit_kinds first_exit_not_healthy)
    show ?thesis
      by (simp add: RECONNECT_reconnecting_observations(2) [OF r] del: RECONNECT.simps)
  qed
qed

lemma RECONNECT_returned_nil:
  assumes "fst (RECONNECT rz cfg req k d w) = Returned None"
  shows "\<exists>cs c rest e. w = cs @ c # rest \<and> (\<forall>x\<in>set cs. reconnecting rz x) \<and>
           subscribed rz c \<and> first_exit (events c) = Some e \<and> cancellation e"
  using assms
proof (induction w arbitrary: k d)
  case Nil
  then show ?case by simp
next
  case (Cons c w)
  show ?case
  proof (cases "subscribed rz c")
    case False
    from RECONNECT_not_subscribed [OF False, of cfg req k d w] Cons.prems
    show ?thesis by auto
  next
    case True
    show ?thesis
    proof (cases "first_exit (events c)")
      case None
      from RECONNECT_blocked [OF True None, of cfg req k d w] Cons.prems
      show ?thesis by simp
    next
      case (Some e)
      show ?thesis
      proof (cases "cancellation e")
        case True
        with \<open>subscribed rz c\<close> Some have
          "c # w = [] @ c # w \<and> (\<forall>x\<in>set []. reconnecting rz x) \<and>
           subscribed rz c \<and> first_exit (events c) = Some e \<and> cancellation e"
          by simp
        then show ?thesis by blast
      next
        case False
        with Some \<open>subscribed rz c\<close> have r: "reconnecting rz c"
          by (simp add: reconnecting_def exit_kinds first_exit_not_healthy)
        from Cons.prems have
          "fst (RECONNECT rz cfg req (Suc k) (TickerStop k # Close k # d) w) = Returned None"
          by (simp add: RECONNECT_reconnecting_observations(1) [OF r] del: RECONNECT.simps)
        from Cons.IH [OF this] obtain cs c' rest e' where
          "w = cs @ c' # rest" "\<forall>x\<in>set cs. reconnecting rz x"
          "subscribed rz c'" "first_exit (events c') = Some e'" "cancellation e'"
          by blast
        with r have
          "c # w = (c # cs) @ c' # rest \<and> (\<forall>x\<in>set (c # cs). reconnecting rz x) \<and>
           subscribed rz c' \<and> first_exit (events c') = Some e' \<and> cancellation e'"
          by simp
        then show ?thesis by blast
      qed
    qed
  qed
qed

text \<open>What \<open>wsConn.Ping\<close> returns changes neither the exit of the loop nor its effects.\<close>

lemma ping_result_is_discarded:
  "for_select k (pre @ TickerC r # post) = for_select k (pre @ TickerC r' # post)"
proof (induction pre)
  case Nil
  show ?case by simp
next
  case (Cons x pre)
  then show ?case by (cases x) simp_all
qed

subsection \<open>The sample values\<close>

lemma subscribed_accepting:
  "subscribed rz (accepting a es) = (\<not> rz a)"
  by (simp add: subscribed_def accepting_def)

lemma accepts_subscribe_response:
  "SubscribeResponse_result_is_zero (subscribe_response r) = (r = 0)"
  by (simp add: SubscribeResponse_result_is_zero_def subscribe_response_def)

lemma unmarshal_any_not_int: "unmarshal_any j \<noteq> AInt i"
  by (cases j) simp_all

lemma accepts_jsonrpc_response: "\<not> JSONRPCResponse_result_is_zero (jsonrpc_response m)"
  by (simp add: JSONRPCResponse_result_is_zero_def jsonrpc_response_def any_eq_const_def
        unmarshal_member_def unmarshal_any_not_int split: option.splits)

lemma sample_distinct: "distinct [sample_buy, sample_sell, sample_create]"
  by (simp add: sample_buy_def sample_sell_def sample_create_def)

lemma notification_instructions:
  "tm_Instructions (et_Message (tv_Transaction (td_Value (tp_Result (tn_Params
     (notification j m s keys (i # rest))))))) = i # rest"
  by (simp add: notification_def)

section \<open>The claims\<close>

text \<open>
  Claim C1 says that a failure of the subscribe step during a reconnect attempt causes
  another reconnect and is never returned to the caller. Here the first connection is
  lost to a transient read failure and the write of the subscribe request fails on the
  second: the call returns that error after two dials, although a third connection would
  have accepted the subscription.
\<close>

theorem reconnect_subscribe_failure_counterexample:
  "fst (TransactionsNotifications JSONRPCResponse_result_is_zero sample_config sample_jsonrpc_request
      [accepting (jsonrpc_response (Some (JNumber 7)))
         [ReadOk (notification ''2.0'' ''transactionNotification'' 7 [''A''] []),
          ReadErr OtherErr False],
       (accepting (jsonrpc_response (Some (JNumber 8))) []) \<lparr>write_request := Some OtherErr\<rparr>,
       accepting (jsonrpc_response (Some (JNumber 9)))
         [ReadOk (notification ''2.0'' ''transactionNotification'' 9 [''B''] [])]])
     = Returned (Some (CannotSendSubscribe OtherErr)) \<and>
   dials (snd (TransactionsNotifications JSONRPCResponse_result_is_zero sample_config
      sample_jsonrpc_request
      [accepting (jsonrpc_response (Some (JNumber 7)))
         [ReadOk (notification ''2.0'' ''transactionNotification'' 7 [''A''] []),
          ReadErr OtherErr False],
       (accepting (jsonrpc_response (Some (JNumber 8))) []) \<lparr>write_request := Some OtherErr\<rparr>,
       accepting (jsonrpc_response (Some (JNumber 9)))
         [ReadOk (notification ''2.0'' ''transactionNotification'' 9 [''B''] [])]])) = 2"
  by (simp add: TransactionsNotifications_def accepting_def accepts_jsonrpc_response)

text \<open>
  Claim C1, amended. A failure of the subscribe step (the write fails, the acknowledgement
  cannot be read, or its result is zero) during a reconnect attempt ends the call with the
  same error as on a first attempt: there is no further dial and no further sleep.
\<close>

theorem subscribe_failure_on_reconnect_is_returned:
  assumes "cs \<noteq> []" and "\<forall>x\<in>set cs. reconnecting rz x" and "dial c = None"
    and "write_request c \<noteq> None \<or> isl (read_response c) \<or>
         (\<exists>a. read_response c = Inr a \<and> rz a)"
  shows "(\<exists>e. fst (TransactionsNotifications rz cfg req (cs @ c # w)) = Returned (Some e)) \<and>
         fst (TransactionsNotifications rz cfg req (cs @ c # w)) =
           fst (TransactionsNotifications rz cfg req [c]) \<and>
         dials (snd (TransactionsNotifications rz cfg req (cs @ c # w))) = length cs + 1 \<and>
         sleeps (snd (TransactionsNotifications rz cfg req (cs @ c # w))) =
           replicate (length cs) 1"
proof -
  from assms(4) have ns: "\<not> subscribed rz c"
    by (auto simp: subscribed_def split: sum.splits)
  let ?k = "0 + length cs" and ?d = "deferred 0 (length cs) []"
  from RECONNECT_not_subscribed [OF ns, of cfg req ?k ?d w]
  obtain e tr where r: "RECONNECT rz cfg req ?k ?d (c # w) = (Returned (Some e), tr @ ?d)"
    and o: "callbacks tr = []" "dials tr = 1" "sleeps tr = []"
    by blast
  have same: "fst (RECONNECT rz cfg req ?k ?d (c # w)) = fst (RECONNECT rz cfg req 0 [] [c])"
    by (rule RECONNECT_not_subscribed_outcome [OF ns])
  from r same have first: "fst (RECONNECT rz cfg req 0 [] [c]) = Returned (Some e)"
    by simp
  from RECONNECT_reconnects [OF assms(2), of cfg req 0 "[]" "c # w"] r o first
  show ?thesis
    by (simp add: TransactionsNotifications_def dials_append sleeps_append
          deferred_observations del: RECONNECT.simps)
qed

theorem subscribe_failure_on_reconnect_is_returned_witness:
  "fst (TransactionsNotifications JSONRPCResponse_result_is_zero sample_config sample_jsonrpc_request
      ([accepting (jsonrpc_response (Some (JNumber 7)))
          [ReadOk (notification ''2.0'' ''transactionNotification'' 7 [''A''] []),
           ReadErr OtherErr False]]
       @ (accepting (jsonrpc_response None) []) \<lparr>read_response := Inl OtherErr\<rparr>
       # [accepting (jsonrpc_response (Some (JNumber 9)))
            [ReadOk (notification ''2.0'' ''transactionNotification'' 9 [''B''] [])]]))
     = Returned (Some (CannotReadSubscribeResponse OtherErr)) \<and>
   dials (snd (TransactionsNotifications JSONRPCResponse_result_is_zero sample_config
      sample_jsonrpc_request
      ([accepting (jsonrpc_response (Some (JNumber 7)))
          [ReadOk (notification ''2.0'' ''transactionNotification'' 7 [''A''] []),
           ReadErr OtherErr False]]
       @ (accepting (jsonrpc_response None) []) \<lparr>read_response := Inl OtherErr\<rparr>
       # [accepting (jsonrpc_response (Some (JNumber 9)))
            [ReadOk (notification ''2.0'' ''transactionNotification'' 9 [''B''] [])]]))) = 2 \<and>
   sleeps (snd (TransactionsNotifications JSONRPCResponse_result_is_zero sample_config
      sample_jsonrpc_request
      ([accepting (jsonrpc_response (Some (JNumber 7)))
          [ReadOk (notification ''2.0'' ''transactionNotification'' 7 [''A''] []),
           ReadErr OtherErr False]]
       @ (accepting (jsonrpc_response None) []) \<lparr>read_response := Inl OtherErr\<rparr>
       # [accepting (jsonrpc_response (Some (JNumber 9)))
            [ReadOk (notification ''2.0'' ''transactionNotification'' 9 [''B''] [])]]))) = [1]"
proof -
  let ?cs = "[accepting (jsonrpc_response (Some (JNumber 7)))
          [ReadOk (notification ''2.0'' ''transactionNotification'' 7 [''A''] []),
           ReadErr OtherErr False]]"
  let ?c = "(accepting (jsonrpc_response None) [])
      \<lparr>read_response := Inl OtherErr :: neterr + JSONRPCResponse\<rparr>
      :: (JSONRPCResponse, TransactionNotification) connection"
  have a: "?cs \<noteq> []" by simp
  have b: "\<forall>x\<in>set ?cs. reconnecting JSONRPCResponse_result_is_zero x"
    by (simp add: reconnecting_def subscribed_accepting accepts_jsonrpc_response first_exit_def)
       (simp add: accepting_def)
  have c: "dial ?c = None" by (simp add: accepting_def)
  have d: "write_request ?c \<noteq> None \<or> isl (read_response ?c) \<or>
         (\<exists>a. read_response ?c = Inr a \<and> JSONRPCResponse_result_is_zero a)"
    by simp
  from subscribe_failure_on_reconnect_is_returned [OF a b c d, of sample_config sample_jsonrpc_request
      "[accepting (jsonrpc_response (Some (JNumber 9)))
            [ReadOk (notification ''2.0'' ''transactionNotification'' 9 [''B''] [])]]"]
  show ?thesis by (simp add: TransactionsNotifications_def accepting_def)
qed

text \<open>
  Claim C2. On a connection that accepts the subscription and then yields well-formed
  frames (with keepalive ticks in between, and nothing else), the callback is called once
  per frame, in the order of arrival, with the decoded frame as its argument; the call is
  still streaming afterwards.
\<close>

theorem frames_delivered_in_order:
  assumes "subscribed rz c" and "\<forall>e\<in>set (events c). healthy e"
  shows "callbacks (snd (TransactionsNotifications rz cfg req (c # w))) = frames (events c) \<and>
         length (callbacks (snd (TransactionsNotifications rz cfg req (c # w)))) =
           length (frames (events c)) \<and>
         fst (TransactionsNotifications rz cfg req (c # w)) = Running"
proof -
  from assms(2) have "first_exit (events c) = None"
    by (simp add: first_exit_None_iff)
  from RECONNECT_blocked [OF assms(1) this, of cfg req 0 "[]" w]
  show ?thesis
    by (simp add: TransactionsNotifications_def for_select_healthy [OF assms(2)]
          del: RECONNECT.simps)
qed

theorem frames_delivered_in_order_witness:
  "callbacks (snd (TransactionsNotifications SubscribeResponse_result_is_zero sample_config
      sample_notification_request
      [accepting (subscribe_response 7)
         [ReadOk (notification ''2.0'' ''transactionNotification'' 7 [''A''] []),
          TickerC None,
          ReadOk (notification ''2.0'' ''transactionNotification'' 7 [''B''] []),
          ReadOk (notification ''2.0'' ''transactionNotification'' 7 [''A''] [])]]))
   = [notification ''2.0'' ''transactionNotification'' 7 [''A''] [],
      notification ''2.0'' ''transactionNotification'' 7 [''B''] [],
      notification ''2.0'' ''transactionNotification'' 7 [''A''] []]"
proof -
  let ?c = "accepting (subscribe_response 7)
         [ReadOk (notification ''2.0'' ''transactionNotification'' 7 [''A''] []),
          TickerC None,
          ReadOk (notification ''2.0'' ''transactionNotification'' 7 [''B''] []),
          ReadOk (notification ''2.0'' ''transactionNotification'' 7 [''A''] [])]"
  have s: "subscribed SubscribeResponse_result_is_zero ?c"
    by (simp add: subscribed_accepting accepts_subscribe_response)
  have h: "\<forall>e\<in>set (events ?c). healthy e"
    by (simp add: accepting_def)
  from frames_delivered_in_order [OF s h, of sample_config sample_notification_request "[]"]
  show ?thesis by (simp add: accepting_def)
qed

text \<open>
  Claim C3 says that the call returns with no error exactly when the cancellation signal
  fires, and that no error is reported on cancellation. A cancellation that makes
  \<open>websocket.Dial\<close> fail is returned as an error.
\<close>

theorem cancellation_during_dial_counterexample:
  "fst (TransactionsNotifications JSONRPCResponse_result_is_zero sample_config sample_jsonrpc_request
      [(accepting (jsonrpc_response (Some (JNumber 7)))
          [ReadOk (notification ''2.0'' ''transactionNotification'' 7 [''A''] [])])
       \<lparr>dial := Some ContextCanceled\<rparr>])
     = Returned (Some (CannotConnect ContextCanceled))"
  by (simp add: TransactionsNotifications_def accepting_def)

text \<open>
  Claim C3, amended. The call returns with no error exactly when the streaming loop of a
  connection observes the cancellation (the \<open>ctx.Done()\<close> case runs, or a read fails
  with the context cancelled), every earlier connection having been lost to a transient
  failure. The callback has then received the frames read before that event and no
  others, whatever frames \<open>post\<close> are still queued.
\<close>

theorem cancellation_while_streaming:
  "(fst (TransactionsNotifications rz cfg req world) = Returned None) =
     (\<exists>cs c rest pre e post.
        world = cs @ c # rest \<and> (\<forall>x\<in>set cs. reconnecting rz x) \<and> subscribed rz c \<and>
        events c = pre @ e # post \<and> (\<forall>x\<in>set pre. healthy x) \<and> cancellation e) \<and>
   (\<forall>cs c rest pre e post.
        world = cs @ c # rest \<and> (\<forall>x\<in>set cs. reconnecting rz x) \<and> subscribed rz c \<and>
        events c = pre @ e # post \<and> (\<forall>x\<in>set pre. healthy x) \<and> cancellation e \<longrightarrow>
        callbacks (snd (TransactionsNotifications rz cfg req world)) =
          concat (map (\<lambda>x. delivered (events x)) cs) @ frames pre)"
proof -
  have forward: "\<exists>cs c rest pre e post.
        world = cs @ c # rest \<and> (\<forall>x\<in>set cs. reconnecting rz x) \<and> subscribed rz c \<and>
        events c = pre @ e # post \<and> (\<forall>x\<in>set pre. healthy x) \<and> cancellation e"
    if "fst (TransactionsNotifications rz cfg req world) = Returned None"
  proof -
    from that have "fst (RECONNECT rz cfg req 0 [] world) = Returned None"
      by (simp add: TransactionsNotifications_def)
    from RECONNECT_returned_nil [OF this] obtain cs c rest e where
      w: "world = cs @ c # rest" "\<forall>x\<in>set cs. reconnecting rz x" "subscribed rz c"
      and fe: "first_exit (events c) = Some e" and ce: "cancellation e"
      by blast
    from first_exit_takeWhile [OF fe] obtain post where
      "events c = takeWhile healthy (events c) @ e # post" by blast
    with w ce takeWhile_healthy [of "events c"] show ?thesis by blast
  qed
  have backward:
    "fst (TransactionsNotifications rz cfg req world) = Returned None \<and>
     callbacks (snd (TransactionsNotifications rz cfg req world)) =
       concat (map (\<lambda>x. delivered (events x)) cs) @ frames pre"
    if w: "world = cs @ c # rest" and r: "\<forall>x\<in>set cs. reconnecting rz x"
      and s: "subscribed rz c" and ev: "events c = pre @ e # post"
      and h: "\<forall>x\<in>set pre. healthy x" and ce: "cancellation e"
    for cs c rest pre e post
  proof -
    from ce have nh: "\<not> healthy e" by (rule cancellation_not_healthy)
    have fe: "first_exit (events c) = Some e"
      by (simp add: ev first_exit_append [OF h nh])
    have dl: "delivered (events c) = frames pre"
      by (simp add: ev delivered_healthy_append [OF h] delivered_exit [OF nh])
    from RECONNECT_cancelled [OF s fe ce, of cfg req "0 + length cs" "deferred 0 (length cs) []" rest]
      RECONNECT_reconnects [OF r, of cfg req 0 "[]" "c # rest"] dl
    show ?thesis
      by (simp add: TransactionsNotifications_def w callbacks_append
            for_select_takeWhile_observations deferred_observations del: RECONNECT.simps)
  qed
  from forward backward show ?thesis by blast
qed

theorem cancellation_while_streaming_witness:
  "fst (TransactionsNotifications JSONRPCResponse_result_is_zero sample_config sample_jsonrpc_request
      [accepting (jsonrpc_response (Some (JNumber 7)))
         [ReadOk (notification ''2.0'' ''transactionNotification'' 7 [''A''] []),
          ReadErr OtherErr False],
       accepting (jsonrpc_response (Some (JNumber 8)))
         [ReadOk (notification ''2.0'' ''transactionNotification'' 8 [''B''] []),
          CtxDone,
          ReadOk (notification ''2.0'' ''transactionNotification'' 8 [''C''] [])]])
     = Returned None \<and>
   callbacks (snd (TransactionsNotifications JSONRPCResponse_result_is_zero sample_config
      sample_jsonrpc_request
      [accepting (jsonrpc_response (Some (JNumber 7)))
         [ReadOk (notification ''2.0'' ''transactionNotification'' 7 [''A''] []),
          ReadErr OtherErr False],
       accepting (jsonrpc_response (Some (JNumber 8)))
         [ReadOk (notification ''2.0'' ''transactionNotification'' 8 [''B''] []),
          CtxDone,
          ReadOk (notification ''2.0'' ''transactionNotification'' 8 [''C''] [])]]))
     = [notification ''2.0'' ''transactionNotification'' 7 [''A''] [],
        notification ''2.0'' ''transactionNotification'' 8 [''B''] []]"
proof -
  let ?c0 = "accepting (jsonrpc_response (Some (JNumber 7)))
         [ReadOk (notification ''2.0'' ''transactionNotification'' 7 [''A''] []),
          ReadErr OtherErr False]"
  let ?c1 = "accepting (jsonrpc_response (Some (JNumber 8)))
         [ReadOk (notification ''2.0'' ''transactionNotification'' 8 [''B''] []),
          CtxDone,
          ReadOk (notification ''2.0'' ''transactionNotification'' 8 [''C''] [])]"
  let ?pre = "[ReadOk (notification ''2.0'' ''transactionNotification'' 8 [''B''] [])]"
  let ?post = "[ReadOk (notification ''2.0'' ''transactionNotification'' 8 [''C''] [])]"
  have r: "\<forall>x\<in>set [?c0]. reconnecting JSONRPCResponse_result_is_zero x"
    by (simp add: reconnecting_def subscribed_accepting accepts_jsonrpc_response first_exit_def)
       (simp add: accepting_def)
  have s: "subscribed JSONRPCResponse_result_is_zero ?c1"
    by (simp add: subscribed_accepting accepts_jsonrpc_response)
  have ev: "events ?c1 = ?pre @ CtxDone # ?post"
    by (simp add: accepting_def)
  have h: "\<forall>x\<in>set ?pre. healthy x" by simp
  have ce: "cancellation (CtxDone :: TransactionNotification select_event)" by simp
  have hyp: "[?c0, ?c1] = [?c0] @ ?c1 # [] \<and>
      (\<forall>x\<in>set [?c0]. reconnecting JSONRPCResponse_result_is_zero x) \<and>
      subscribed JSONRPCResponse_result_is_zero ?c1 \<and>
      events ?c1 = ?pre @ CtxDone # ?post \<and> (\<forall>x\<in>set ?pre. healthy x) \<and>
      cancellation (CtxDone :: TransactionNotification select_event)"
    using r s ev h ce by simp
  note t = cancellation_while_streaming
    [of JSONRPCResponse_result_is_zero sample_config sample_jsonrpc_request "[?c0, ?c1]"]
  from t hyp have 1: "fst (TransactionsNotifications JSONRPCResponse_result_is_zero
      sample_config sample_jsonrpc_request [?c0, ?c1]) = Returned None"
    by blast
  from t hyp have 2: "callbacks (snd (TransactionsNotifications JSONRPCResponse_result_is_zero
      sample_config sample_jsonrpc_request [?c0, ?c1])) =
      concat (map (\<lambda>x. delivered (events x)) [?c0]) @ frames ?pre"
    by blast
  have 3: "concat (map (\<lambda>x. delivered (events x)) [?c0]) @ frames ?pre =
     [notification ''2.0'' ''transactionNotification'' 7 [''A''] [],
      notification ''2.0'' ''transactionNotification'' 8 [''B''] []]"
    by (simp add: delivered_def accepting_def)
  from 1 2 3 show ?thesis by simp
qed

text \<open>
  Claim C4. When the first dial fails, or writing the subscribe request fails, or the
  acknowledgement cannot be read, \<open>TransactionsNotifications\<close> returns an error at once:
  it dials once, never sleeps, and never calls the callback.
\<close>

theorem setup_failure_is_returned:
  assumes "dial c \<noteq> None \<or> write_request c \<noteq> None \<or> isl (read_response c)"
  shows "(\<exists>e. fst (TransactionsNotifications rz cfg req (c # w)) = Returned (Some e)) \<and>
         callbacks (snd (TransactionsNotifications rz cfg req (c # w))) = [] \<and>
         dials (snd (TransactionsNotifications rz cfg req (c # w))) = 1 \<and>
         sleeps (snd (TransactionsNotifications rz cfg req (c # w))) = []"
proof -
  from assms have "\<not> subscribed rz c"
    by (auto simp: subscribed_def split: sum.splits)
  from RECONNECT_not_subscribed [OF this, of cfg req 0 "[]" w]
  show ?thesis by (auto simp: TransactionsNotifications_def simp del: RECONNECT.simps)
qed

theorem setup_failure_is_returned_witness:
  "fst (TransactionsNotifications SubscribeResponse_result_is_zero sample_config
          sample_notification_request
          [(accepting (subscribe_response 7)
              [ReadOk (notification ''2.0'' ''transactionNotification'' 7 [] [])])
           \<lparr>write_request := Some OtherErr\<rparr>,
           accepting (subscribe_response 8) []])
     = Returned (Some (CannotSendSubscribe OtherErr)) \<and>
   callbacks (snd (TransactionsNotifications SubscribeResponse_result_is_zero sample_config
          sample_notification_request
          [(accepting (subscribe_response 7)
              [ReadOk (notification ''2.0'' ''transactionNotification'' 7 [] [])])
           \<lparr>write_request := Some OtherErr\<rparr>,
           accepting (subscribe_response 8) []])) = [] \<and>
   dials (snd (TransactionsNotifications SubscribeResponse_result_is_zero sample_config
          sample_notification_request
          [(accepting (subscribe_response 7)
              [ReadOk (notification ''2.0'' ''transactionNotification'' 7 [] [])])
           \<lparr>write_request := Some OtherErr\<rparr>,
           accepting (subscribe_response 8) []])) = 1"
  using setup_failure_is_returned [of
      "(accepting (subscribe_response 7)
              [ReadOk (notification ''2.0'' ''transactionNotification'' 7 [] [])])
           \<lparr>write_request := Some OtherErr\<rparr>"
      SubscribeResponse_result_is_zero sample_config sample_notification_request
      "[accepting (subscribe_response 8) []]"]
  by (simp add: accepting_def TransactionsNotifications_def)

text \<open>
  Claim C5: an acknowledgement whose result is 0 or absent is a setup error. The revision
  whose \<open>Result\<close> is an \<open>int\<close> returns that error (an absent result decodes to 0).
\<close>

lemma SubscribeResponse_zero_result_is_rejected:
  "fst (TransactionsNotifications SubscribeResponse_result_is_zero cfg req
          (accepting (subscribe_response 0) es # w)) = Returned (Some SubscribeResultIsNil) \<and>
   callbacks (snd (TransactionsNotifications SubscribeResponse_result_is_zero cfg req
          (accepting (subscribe_response 0) es # w))) = []"
  by (simp add: TransactionsNotifications_def accepting_def accepts_subscribe_response)

text \<open>
  Claim C5 on the revision whose \<open>Result\<close> is an \<open>interface{}\<close>: \<open>encoding/json\<close> stores
  a \<open>float64\<close> for the result 0 and leaves \<open>nil\<close> for an absent one, neither of which
  equals the \<open>int\<close> constant 0. The test \<open>subResp.Result == 0\<close> is false, the call enters
  the streaming loop and passes the next frame to the callback.
\<close>

theorem JSONRPCResponse_zero_result_is_accepted:
  "fst (TransactionsNotifications JSONRPCResponse_result_is_zero cfg req
          [accepting (jsonrpc_response (Some (JNumber 0))) [ReadOk n]]) = Running \<and>
   callbacks (snd (TransactionsNotifications JSONRPCResponse_result_is_zero cfg req
          [accepting (jsonrpc_response (Some (JNumber 0))) [ReadOk n]])) = [n] \<and>
   fst (TransactionsNotifications JSONRPCResponse_result_is_zero cfg req
          [accepting (jsonrpc_response None) [ReadOk n]]) = Running \<and>
   callbacks (snd (TransactionsNotifications JSONRPCResponse_result_is_zero cfg req
          [accepting (jsonrpc_response None) [ReadOk n]])) = [n]"
  by (simp add: TransactionsNotifications_def accepting_def accepts_jsonrpc_response)

text \<open>
  Claim C6: on a reconnect the session closes the current connection, waits one second
  and dials again with the original request. The run below loses connection 0 to a
  transient read failure: it sleeps one second and dials connection 1 with the same
  request, but \<open>Close 0\<close> is deferred and runs only when the function returns (after
  \<open>Close 1\<close>); while connection 1 streams, connection 0 has not been closed.
\<close>

theorem connection_is_closed_at_return_only:
  "snd (TransactionsNotifications JSONRPCResponse_result_is_zero cfg req
          [accepting (jsonrpc_response (Some (JNumber 7))) [ReadErr OtherErr False],
           accepting (jsonrpc_response (Some (JNumber 8))) [CtxDone]]) =
     [Dial (WssApiEndpoint cfg), WriteJSON 0 req, NewTicker 0 30, Sleep 1,
      Dial (WssApiEndpoint cfg), WriteJSON 1 req, NewTicker 1 30,
      TickerStop 1, Close 1, TickerStop 0, Close 0] \<and>
   snd (TransactionsNotifications JSONRPCResponse_result_is_zero cfg req
          [accepting (jsonrpc_response (Some (JNumber 7))) [ReadErr OtherErr False],
           accepting (jsonrpc_response (Some (JNumber 8))) [ReadOk n]]) =
     [Dial (WssApiEndpoint cfg), WriteJSON 0 req, NewTicker 0 30, Sleep 1,
      Dial (WssApiEndpoint cfg), WriteJSON 1 req, NewTicker 1 30, Do n]"
  by (simp add: TransactionsNotifications_def accepting_def accepts_jsonrpc_response)

text \<open>
  Claim C8. \<open>InstructionType\<close> maps the discriminator of the first top-level instruction
  to \<open>Buy\<close>, \<open>Sell\<close> or \<open>Create\<close> when it is the matching known discriminator, and to
  \<open>unknown\<close> when it is none of them.
\<close>

theorem InstructionType_labels:
  assumes "distinct [buy, sell, create]"
    and "tm_Instructions (et_Message (tv_Transaction (td_Value (tp_Result (tn_Params t))))) =
           i # rest"
  shows "(discriminator (ci_Data i) = buy \<longrightarrow>
            InstructionType discriminator buy sell create t = ''Buy'') \<and>
         (discriminator (ci_Data i) = sell \<longrightarrow>
            InstructionType discriminator buy sell create t = ''Sell'') \<and>
         (discriminator (ci_Data i) = create \<longrightarrow>
            InstructionType discriminator buy sell create t = ''Create'') \<and>
         (discriminator (ci_Data i) \<notin> {buy, sell, create} \<longrightarrow>
            InstructionType discriminator buy sell create t = ''unknown'')"
  using assms by (auto simp: InstructionType_def)

theorem InstructionType_labels_witness:
  "InstructionType leading_bytes sample_buy sample_sell sample_create
     (notification ''2.0'' ''transactionNotification'' 7 [''A'']
        [instruction [CHR 0x66, CHR 0x06, CHR 0x3D, CHR 0x12, CHR 0x01, CHR 0xDA, CHR 0xEB,
                      CHR 0xEA, CHR 0x10]]) = ''Buy'' \<and>
   InstructionType leading_bytes sample_buy sample_sell sample_create
     (notification ''2.0'' ''transactionNotification'' 7 [''A'']
        [instruction [CHR 0x33, CHR 0xE6, CHR 0x85, CHR 0xA4, CHR 0x01, CHR 0x7F, CHR 0x83,
                      CHR 0xAD, CHR 0x10]]) = ''Sell'' \<and>
   InstructionType leading_bytes sample_buy sample_sell sample_create
     (notification ''2.0'' ''transactionNotification'' 7 [''A'']
        [instruction [CHR 0x18, CHR 0x1E, CHR 0xC8, CHR 0x28, CHR 0x05, CHR 0x1C, CHR 0x07,
                      CHR 0x77, CHR 0x10]]) = ''Create'' \<and>
   InstructionType leading_bytes sample_buy sample_sell sample_create
     (notification ''2.0'' ''transactionNotification'' 7 [''A'']
        [instruction ''transfer'']) = ''unknown''"
proof -
  note t = InstructionType_labels [OF sample_distinct notification_instructions,
      where discriminator = leading_bytes]
  have b: "leading_bytes (ci_Data (instruction
      [CHR 0x66, CHR 0x06, CHR 0x3D, CHR 0x12, CHR 0x01, CHR 0xDA, CHR 0xEB,
       CHR 0xEA, CHR 0x10])) = sample_buy"
    by (simp add: leading_bytes_def instruction_def sample_buy_def)
  have s: "leading_bytes (ci_Data (instruction
      [CHR 0x33, CHR 0xE6, CHR 0x85, CHR 0xA4, CHR 0x01, CHR 0x7F, CHR 0x83,
       CHR 0xAD, CHR 0x10])) = sample_sell"
    by (simp add: leading_bytes_def instruction_def sample_sell_def)
  have c: "leading_bytes (ci_Data (instruction
      [CHR 0x18, CHR 0x1E, CHR 0xC8, CHR 0x28, CHR 0x05, CHR 0x1C, CHR 0x07,
       CHR 0x77, CHR 0x10])) = sample_create"
    by (simp add: leading_bytes_def instruction_def sample_create_def)
  have u: "leading_bytes (ci_Data (instruction ''transfer'')) \<notin>
      {sample_buy, sample_sell, sample_create}"
    by (simp add: leading_bytes_def instruction_def sample_buy_def sample_sell_def
          sample_create_def)
  from t b s c u show ?thesis by blast
qed

text \<open>
  Claim C9. For every \<open>TransactionNotification\<close> value, \<open>Owner\<close> returns the empty string
  when the account-key list of the transaction message is empty and the first account key
  otherwise; the index it reads is always in range, so it never panics.
\<close>

theorem Owner_first_key_or_empty:
  "Owner t =
     Inr (case tm_AccountKeys (et_Message (tv_Transaction (td_Value (tp_Result (tn_Params t))))) of
            [] \<Rightarrow> '''' | key # keys \<Rightarrow> key)"
  by (simp add: Owner_def index_def split: list.splits)

text \<open>
  Claim C10. While streaming, a frame that decodes into the notification structure is
  handed to the callback whatever it holds: the statement puts no condition on the
  decoded value \<open>n\<close>, so its jsonrpc version, method name and subscription identifier are
  never consulted.
\<close>

theorem decoded_frame_reaches_callback:
  fixes n :: TransactionNotification
  assumes "subscribed rz c" and "events c = pre @ ReadOk n # post"
    and "\<forall>e\<in>set pre. healthy e"
  shows "\<exists>rest. callbacks (snd (TransactionsNotifications rz cfg req (c # w))) =
           frames pre @ n # rest"
proof -
  have "delivered (events c) = frames pre @ n # delivered post"
    by (simp add: assms(2) delivered_healthy_append [OF assms(3)] delivered_ReadOk)
  moreover from RECONNECT_subscribed_callbacks [OF assms(1), of cfg req 0 "[]" w]
  obtain rest where
    "callbacks (snd (RECONNECT rz cfg req 0 [] (c # w))) = delivered (events c) @ rest"
    by blast
  ultimately have "callbacks (snd (TransactionsNotifications rz cfg req (c # w))) =
      frames pre @ n # (delivered post @ rest)"
    by (simp add: TransactionsNotifications_def del: RECONNECT.simps)
  then show ?thesis by blast
qed

theorem decoded_frame_reaches_callback_witness:
  "callbacks (snd (TransactionsNotifications JSONRPCResponse_result_is_zero sample_config
      sample_jsonrpc_request
      [accepting (jsonrpc_response (Some (JNumber 7)))
         [ReadOk (notification ''2.0'' ''transactionNotification'' 7 [''A''] []),
          ReadOk (notification ''1.0'' ''slotNotification'' 12345 [] []),
          ReadOk (notification [] [] 0 [] [])]]))
   = [notification ''2.0'' ''transactionNotification'' 7 [''A''] [],
      notification ''1.0'' ''slotNotification'' 12345 [] [],
      notification [] [] 0 [] []]"
proof -
  let ?c = "accepting (jsonrpc_response (Some (JNumber 7)))
         [ReadOk (notification ''2.0'' ''transactionNotification'' 7 [''A''] []),
          ReadOk (notification ''1.0'' ''slotNotification'' 12345 [] []),
          ReadOk (notification [] [] 0 [] [])]"
  have s: "subscribed JSONRPCResponse_result_is_zero ?c"
    by (simp add: subscribed_accepting accepts_jsonrpc_response)
  have e: "events ?c =
      [ReadOk (notification ''2.0'' ''transactionNotification'' 7 [''A''] [])]
      @ ReadOk (notification ''1.0'' ''slotNotification'' 12345 [] [])
      # [ReadOk (notification [] [] 0 [] [])]"
    by (simp add: accepting_def)
  have h: "\<forall>e\<in>set [ReadOk (notification ''2.0'' ''transactionNotification'' 7 [''A''] [])].
             healthy e"
    by simp
  from decoded_frame_reaches_callback [OF s e h, of sample_config sample_jsonrpc_request "[]"]
  show ?thesis by (simp add: accepting_def TransactionsNotifications_def accepts_jsonrpc_response)
qed

end
